theory Spec2Isabelle
  imports Main "HOL-Library.Word"
begin

section \<open>The video processing agent of search\_agent.py\<close>

text \<open>
  A shallow embedding of \<^verbatim>\<open>src/examples/search_agent/src/search_agent/search_agent.py\<close>:
  the class \<^verbatim>\<open>VideoProcessingAgent\<close> with its constructor and its four methods.
  Everything the Python does besides returning a value is explicit: the blocks handed to
  the response handler, the file system, the requests sent to the two cloud services and
  the clients constructed are components of a state that every operation takes and
  returns; an exception is the \<open>Inl\<close> branch of a sum.
\<close>

subsection \<open>Python values and exceptions\<close>

type_synonym bytes = "8 word list"

datatype error =
    ValueError string
  | TypeError string
  | IndexError string
  | FileNotFoundError string
  | FileExistsError string
  | ServiceError string

text \<open>
  An asynchronous generator object made by \<^verbatim>\<open>summarize_text\<close>: \<open>Created text\<close> has
  its argument bound and has run none of its body; \<open>Suspended it\<close> stands at the
  \<^verbatim>\<open>yield\<close> inside the loop, \<open>it\<close> being what the provider's stream still holds;
  \<open>Closed\<close> has returned.
\<close>

datatype agen = Created string | Suspended "string list" | Closed

datatype pyval =
    PNone
  | PBool bool
  | PInt int
  | PStr string
  | PBytes bytes
  | PAsyncGen agen

text \<open>Truth value testing, as \<^verbatim>\<open>not mp4_file\<close> applies it.\<close>

fun truthy :: "pyval \<Rightarrow> bool" where
  "truthy PNone = False"
| "truthy (PBool b) = b"
| "truthy (PInt i) = (i \<noteq> 0)"
| "truthy (PStr s) = (s \<noteq> [])"
| "truthy (PBytes b) = (b \<noteq> [])"
| "truthy (PAsyncGen g) = True"

text \<open>\<^verbatim>\<open>d.get(k)\<close>: the value stored under the key, \<^verbatim>\<open>None\<close> when there is none.\<close>

definition dict_get :: "(string \<rightharpoonup> pyval) \<Rightarrow> string \<Rightarrow> pyval" where
  "dict_get d k = (case d k of None \<Rightarrow> PNone | Some v \<Rightarrow> v)"

text \<open>\<^verbatim>\<open>sep.join(xs)\<close> on strings.\<close>

fun join :: "string \<Rightarrow> string list \<Rightarrow> string" where
  "join sep [] = []"
| "join sep [x] = x"
| "join sep (x # y # ys) = x @ sep @ join sep (y # ys)"

definition newline :: string where
  "newline = [CHR 0x0A]"

subsection \<open>The collaborators\<close>

text \<open>
  Modelled from the spec: the query of the hosting framework (\<^verbatim>\<open>sentient_agent_framework\<close>,
  not under src/), "carrying a mapping of named attachments (keys unique)".
\<close>

record Query =
  attachments :: "string \<rightharpoonup> pyval"

text \<open>
  Modelled from the spec: the response handler of the hosting framework, which "accepts
  emitted structured blocks (status text, JSON payloads) and a terminal complete signal".
  The state keeps what it has received, in order.
\<close>

datatype event =
    TextBlock string string
  | JsonBlock string "(string \<times> pyval) list"
  | Complete

text \<open>The types of \<^verbatim>\<open>google.cloud.speech\<close> that the agent touches.\<close>

datatype AudioEncoding = ENCODING_UNSPECIFIED | LINEAR16 | FLAC

record RecognitionConfig =
  encoding :: AudioEncoding
  sample_rate_hertz :: int
  language_code :: string

record RecognitionAudio =
  content :: bytes

record SpeechRecognitionAlternative =
  transcript :: string

record SpeechRecognitionResult =
  alternatives :: "SpeechRecognitionAlternative list"

record RecognizeResponse =
  results :: "SpeechRecognitionResult list"

text \<open>
  Modelled from the spec: the clients. \<^verbatim>\<open>ModelProvider\<close> and \<^verbatim>\<open>SearchProvider\<close>
  (\<^verbatim>\<open>src/search_agent/providers\<close>, not under src/) are constructed from an API key;
  \<^verbatim>\<open>speech.SpeechClient()\<close> is constructed from no argument.
\<close>

datatype ModelProvider = ModelProvider string

datatype SearchProvider = SearchProvider string

datatype SpeechClient = SpeechClient

datatype client =
    ModelClient ModelProvider
  | SearchClient SearchProvider
  | SpeechClientOf SpeechClient

text \<open>
  What the two cloud services answer is a parameter of the model: the speech service
  answers a request with a response or an exception; the model provider answers a prompt
  with a finite stream of fragments (the spec: "a lazy, finite sequence of text chunks").
\<close>

record services =
  recognize :: "RecognitionConfig \<Rightarrow> RecognitionAudio \<Rightarrow> error + RecognizeResponse"
  query_stream :: "string \<Rightarrow> string list"

subsection \<open>The state\<close>

text \<open>
  \<open>emitted\<close>: what the response handler has received; \<open>files\<close>: the file system;
  \<open>tmp_names\<close>: the names the temporary-file name generator will propose, in order;
  \<open>speech_calls\<close>: the requests sent to the speech service; \<open>model_calls\<close>: the
  prompts sent to the model provider.
\<close>

record world =
  emitted :: "event list"
  files :: "string \<rightharpoonup> bytes"
  tmp_names :: "string list"
  speech_calls :: "(RecognitionConfig \<times> RecognitionAudio) list"
  model_calls :: "string list"

text \<open>
  What a call of an \<^verbatim>\<open>async def\<close> returns: a coroutine when the body has no
  \<^verbatim>\<open>yield\<close>, an asynchronous generator object when it has one. Neither has run any of
  the body yet.
\<close>

datatype 'a awaitable =
    Coroutine "world \<Rightarrow> (error + 'a) \<times> world"
  | AsyncGenerator agen

text \<open>
  \<^verbatim>\<open>await x\<close>: a coroutine runs to its result; an asynchronous generator object has no
  \<^verbatim>\<open>__await__\<close>, and Python raises \<^verbatim>\<open>TypeError\<close>.
\<close>

fun await :: "'a awaitable \<Rightarrow> world \<Rightarrow> (error + 'a) \<times> world" where
  "await (Coroutine run) w = run w"
| "await (AsyncGenerator g) w =
     (Inl (TypeError ''object async_generator can't be used in 'await' expression''), w)"

text \<open>Sequencing: an exception of the first step ends the whole.\<close>

definition and_then ::
  "(error + 'a) \<times> world \<Rightarrow> ('a \<Rightarrow> world \<Rightarrow> (error + 'b) \<times> world) \<Rightarrow> (error + 'b) \<times> world" where
  "and_then r k = (case r of (Inl e, w) \<Rightarrow> (Inl e, w) | (Inr x, w) \<Rightarrow> k x w)"

text \<open>The three coroutine methods of the response handler.\<close>

definition emit_text_block :: "string \<Rightarrow> string \<Rightarrow> pyval awaitable" where
  "emit_text_block label text =
     Coroutine (\<lambda>w. (Inr PNone, w\<lparr>emitted := emitted w @ [TextBlock label text]\<rparr>))"

definition emit_json :: "string \<Rightarrow> (string \<times> pyval) list \<Rightarrow> pyval awaitable" where
  "emit_json label payload =
     Coroutine (\<lambda>w. (Inr PNone, w\<lparr>emitted := emitted w @ [JsonBlock label payload]\<rparr>))"

definition complete :: "pyval awaitable" where
  "complete = Coroutine (\<lambda>w. (Inr PNone, w\<lparr>emitted := emitted w @ [Complete]\<rparr>))"

text \<open>
  \<^verbatim>\<open>tempfile.NamedTemporaryFile(delete=False)\<close>: the first proposed name that no file has
  yet is created, empty; the library raises \<^verbatim>\<open>FileExistsError\<close> when it finds none.
\<close>

fun mkstemp :: "string list \<Rightarrow> (string \<rightharpoonup> bytes) \<Rightarrow> (string \<times> string list) option" where
  "mkstemp [] fs = None"
| "mkstemp (n # ns) fs = (if fs n = None then Some (n, ns) else mkstemp ns fs)"

definition NamedTemporaryFile :: "world \<Rightarrow> (error + string) \<times> world" where
  "NamedTemporaryFile w =
     (case mkstemp (tmp_names w) (files w) of
        None \<Rightarrow> (Inl (FileExistsError ''No usable temporary file name found''), w\<lparr>tmp_names := []\<rparr>)
      | Some (n, ns) \<Rightarrow> (Inr n, w\<lparr>files := (files w)(n \<mapsto> []), tmp_names := ns\<rparr>))"

text \<open>\<^verbatim>\<open>open(path, "rb").read()\<close>.\<close>

definition open_rb_read :: "string \<Rightarrow> world \<Rightarrow> (error + bytes) \<times> world" where
  "open_rb_read path w =
     (case files w path of
        None \<Rightarrow> (Inl (FileNotFoundError path), w)
      | Some b \<Rightarrow> (Inr b, w))"

subsection \<open>The agent\<close>

record agent =
  agent_name :: string
  model_provider :: ModelProvider
  search_provider :: SearchProvider
  speech_client :: SpeechClient

text \<open>\<^verbatim>\<open>os.getenv(k)\<close> followed by \<^verbatim>\<open>if not v\<close>: unset, or set to the empty string.\<close>

definition not_set :: "(string \<rightharpoonup> string) \<Rightarrow> string \<Rightarrow> bool" where
  "not_set env k = (case env k of None \<Rightarrow> True | Some v \<Rightarrow> v = [])"

text \<open>
  \<^verbatim>\<open>VideoProcessingAgent.__init__\<close>. The second component of the state is the list of the
  clients constructed so far, in order.
\<close>

definition agent_init :: "string \<Rightarrow> (string \<rightharpoonup> string) \<Rightarrow> (error + agent) \<times> client list" where
  "agent_init nm env =
     (let model_api_key = env ''MODEL_API_KEY'' in
      if not_set env ''MODEL_API_KEY'' then (Inl (ValueError ''MODEL_API_KEY is not set''), [])
      else
        let mp = ModelProvider (the model_api_key);
            cs1 = [ModelClient mp];
            search_api_key = env ''TAVILY_API_KEY'' in
        if not_set env ''TAVILY_API_KEY'' then (Inl (ValueError ''TAVILY_API_KEY is not set''), cs1)
        else
          let sp = SearchProvider (the search_api_key);
              cs2 = cs1 @ [SearchClient sp] in
          if not_set env ''GOOGLE_CLOUD_SPEECH_API_KEY''
          then (Inl (ValueError ''GOOGLE_CLOUD_SPEECH_API_KEY is not set''), cs2)
          else
            let sc = SpeechClient;
                cs3 = cs2 @ [SpeechClientOf sc] in
            (Inr \<lparr>agent_name = nm, model_provider = mp, search_provider = sp,
                  speech_client = sc\<rparr>, cs3))"

text \<open>\<^verbatim>\<open>convert_mp4_to_audio\<close>: the body is \<^verbatim>\<open>pass\<close>.\<close>

definition convert_mp4_to_audio :: "agent \<Rightarrow> pyval \<Rightarrow> string \<Rightarrow> world \<Rightarrow> (error + pyval) \<times> world" where
  "convert_mp4_to_audio self mp4_file output_audio_path w = (Inr PNone, w)"

text \<open>
  \<^verbatim>\<open>[result.alternatives[0].transcript for result in response.results]\<close>: indexing an
  empty list of alternatives raises \<^verbatim>\<open>IndexError\<close>.
\<close>

fun top_transcripts :: "SpeechRecognitionResult list \<Rightarrow> error + string list" where
  "top_transcripts [] = Inr []"
| "top_transcripts (r # rs) =
     (case alternatives r of
        [] \<Rightarrow> Inl (IndexError ''list index out of range'')
      | a # _ \<Rightarrow>
          (case top_transcripts rs of
             Inl e \<Rightarrow> Inl e
           | Inr ts \<Rightarrow> Inr (transcript a # ts)))"

text \<open>The call of the speech client: the request is recorded, the service answers.\<close>

definition speech_recognize ::
  "services \<Rightarrow> SpeechClient \<Rightarrow> RecognitionConfig \<Rightarrow> RecognitionAudio \<Rightarrow> world
     \<Rightarrow> (error + RecognizeResponse) \<times> world" where
  "speech_recognize sv c config audio w =
     (recognize sv config audio, w\<lparr>speech_calls := speech_calls w @ [(config, audio)]\<rparr>)"

text \<open>\<^verbatim>\<open>transcribe_video\<close>, a coroutine.\<close>

definition transcribe_video :: "services \<Rightarrow> agent \<Rightarrow> pyval \<Rightarrow> string awaitable" where
  "transcribe_video sv self mp4_file = Coroutine (\<lambda>w.
     and_then (NamedTemporaryFile w) (\<lambda>audio_path w.
     and_then (convert_mp4_to_audio self mp4_file audio_path w) (\<lambda>_ w.
     and_then (open_rb_read audio_path w) (\<lambda>audio_content w.
       let audio = \<lparr>content = audio_content\<rparr>;
           config = \<lparr>encoding = LINEAR16, sample_rate_hertz = 16000,
                     language_code = ''en-US''\<rparr>
       in
     and_then (speech_recognize sv (speech_client self) config audio w) (\<lambda>response w.
       case top_transcripts (results response) of
         Inl e \<Rightarrow> (Inl e, w)
       | Inr ts \<Rightarrow> (Inr (join newline ts), w))))))"

text \<open>
  \<^verbatim>\<open>summarize_text\<close>: the body has a \<^verbatim>\<open>yield\<close>, so the call returns an asynchronous
  generator object and runs nothing.
\<close>

definition summarize_text :: "services \<Rightarrow> agent \<Rightarrow> string \<Rightarrow> pyval awaitable" where
  "summarize_text sv self text = AsyncGenerator (Created text)"

definition summary_query :: "string \<Rightarrow> string" where
  "summary_query text = ''Summarize the following text: '' @ text"

text \<open>
  One \<^verbatim>\<open>__anext__()\<close> of that generator object: \<open>Some chunk\<close> for a \<^verbatim>\<open>yield\<close>,
  \<open>None\<close> for \<^verbatim>\<open>StopAsyncIteration\<close>. The first one builds the prompt and opens
  the provider's stream; each one takes one fragment from the stream and yields it.
\<close>

fun resume :: "string list \<Rightarrow> string option \<times> agen" where
  "resume [] = (None, Closed)"
| "resume (chunk # it) = (Some chunk, Suspended it)"

fun anext :: "services \<Rightarrow> agen \<Rightarrow> world \<Rightarrow> (string option \<times> agen) \<times> world" where
  "anext sv (Created text) w =
     (resume (query_stream sv (summary_query text)),
      w\<lparr>model_calls := model_calls w @ [summary_query text]\<rparr>)"
| "anext sv (Suspended it) w = (resume it, w)"
| "anext sv Closed w = ((None, Closed), w)"

text \<open>\<^verbatim>\<open>n\<close> successive \<^verbatim>\<open>__anext__()\<close> calls, with what each returned.\<close>

fun anexts :: "nat \<Rightarrow> services \<Rightarrow> agen \<Rightarrow> world \<Rightarrow> (string option list \<times> agen) \<times> world" where
  "anexts 0 sv g w = (([], g), w)"
| "anexts (Suc n) sv g w =
     (case anext sv g w of
        ((r, g'), w') \<Rightarrow>
          (case anexts n sv g' w' of
             ((rs, g''), w'') \<Rightarrow> ((r # rs, g''), w'')))"

text \<open>\<^verbatim>\<open>assist\<close>, run as the coroutine it is.\<close>

definition assist ::
  "services \<Rightarrow> agent \<Rightarrow> 'session \<Rightarrow> Query \<Rightarrow> world \<Rightarrow> (error + pyval) \<times> world" where
  "assist sv self session query w =
     (let mp4_file = dict_get (attachments query) ''mp4_file'' in
      if \<not> truthy mp4_file then
        and_then (await (emit_text_block ''ERROR'' ''No MP4 file provided.'') w) (\<lambda>_ w.
          (Inr PNone, w))
      else
        and_then (await (emit_text_block ''PROCESSING'' ''Processing MP4 file...'') w) (\<lambda>_ w.
        and_then (await (transcribe_video sv self mp4_file) w) (\<lambda>transcription w.
        and_then (await (summarize_text sv self transcription) w) (\<lambda>summary w.
        and_then (await (emit_json ''TRANSCRIPTION'' [(''text'', PStr transcription)]) w) (\<lambda>_ w.
        and_then (await (emit_json ''SUMMARY'' [(''summary'', summary)]) w) (\<lambda>_ w.
        and_then (await complete w) (\<lambda>_ w.
          (Inr PNone, w))))))))"

subsection \<open>A concrete run\<close>

text \<open>
  The stubs of the spec's examples: a speech service that answers every request with two
  segments whose top alternatives are "hello" and "world" (the first segment has a second
  alternative), a model provider that streams "A", "B", "C" for every prompt, an agent
  built from two keys, and a state in which nothing has happened yet.
\<close>

definition example_services :: services where
  "example_services =
     \<lparr>recognize = (\<lambda>config audio. Inr \<lparr>results =
        [\<lparr>alternatives = [\<lparr>transcript = ''hello''\<rparr>, \<lparr>transcript = ''hullo''\<rparr>]\<rparr>,
         \<lparr>alternatives = [\<lparr>transcript = ''world''\<rparr>]\<rparr>]\<rparr>),
      query_stream = (\<lambda>prompt. [''A'', ''B'', ''C''])\<rparr>"

definition example_agent :: agent where
  "example_agent =
     \<lparr>agent_name = ''Video Processing Agent'', model_provider = ModelProvider ''mk'',
      search_provider = SearchProvider ''sk'', speech_client = SpeechClient\<rparr>"

definition example_world :: world where
  "example_world =
     \<lparr>emitted = [], files = Map.empty, tmp_names = [''/tmp/tmpab12cd34''],
      speech_calls = [], model_calls = []\<rparr>"

definition example_query :: Query where
  "example_query = \<lparr>attachments = [''mp4_file'' \<mapsto> PStr ''video.mp4'']\<rparr>"

text \<open>A speech service that is down: every request raises.\<close>

definition down_services :: services where
  "down_services =
     \<lparr>recognize = (\<lambda>config audio. Inl (ServiceError ''503 service unavailable'')),
      query_stream = (\<lambda>prompt. [])\<rparr>"


section \<open>Properties\<close>

subsection \<open>Auxiliary facts\<close>

lemma await_emit_text_block:
  "await (emit_text_block l t) w = (Inr PNone, w\<lparr>emitted := emitted w @ [TextBlock l t]\<rparr>)"
  by (simp add: emit_text_block_def)

text \<open>What running \<^verbatim>\<open>transcribe_video\<close> does, by whether a temporary file could be made.\<close>

lemma await_transcribe_video_no_name:
  assumes "mkstemp (tmp_names w) (files w) = None"
  shows "await (transcribe_video sv self mp4) w =
           (Inl (FileExistsError ''No usable temporary file name found''), w\<lparr>tmp_names := []\<rparr>)"
  using assms by (simp add: transcribe_video_def NamedTemporaryFile_def and_then_def)

lemma await_transcribe_video_named:
  assumes "mkstemp (tmp_names w) (files w) = Some (p, ns)"
  shows "await (transcribe_video sv self mp4) w =
           ((case recognize sv \<lparr>encoding = LINEAR16, sample_rate_hertz = 16000, language_code = ''en-US''\<rparr>
                   \<lparr>content = []\<rparr> of
               Inl e \<Rightarrow> Inl e
             | Inr response \<Rightarrow>
                 (case top_transcripts (results response) of
                    Inl e \<Rightarrow> Inl e
                  | Inr ts \<Rightarrow> Inr (join newline ts))),
            w\<lparr>files := (files w)(p \<mapsto> []), tmp_names := ns,
              speech_calls := speech_calls w @ [(\<lparr>encoding = LINEAR16, sample_rate_hertz = 16000, language_code = ''en-US''\<rparr>,
                \<lparr>content = []\<rparr>)]\<rparr>)"
  using assms
  by (simp add: transcribe_video_def NamedTemporaryFile_def and_then_def
      convert_mp4_to_audio_def open_rb_read_def speech_recognize_def Let_def
      split: sum.splits)

lemma transcribe_video_frame:
  assumes "await (transcribe_video sv self mp4) w = (r, w')"
  shows "emitted w' = emitted w \<and> model_calls w' = model_calls w \<and>
         length (speech_calls w') \<le> Suc (length (speech_calls w))"
proof (cases "mkstemp (tmp_names w) (files w)")
  case None
  with assms show ?thesis
    by (auto simp add: await_transcribe_video_no_name)
next
  case (Some a)
  then obtain p ns where "mkstemp (tmp_names w) (files w) = Some (p, ns)"
    by (cases a) simp
  with assms show ?thesis
    by (auto simp add: await_transcribe_video_named)
qed

lemma top_transcripts_all:
  "\<forall>r \<in> set rs. alternatives r \<noteq> [] \<Longrightarrow>
   top_transcripts rs = Inr (map (\<lambda>r. transcript (hd (alternatives r))) rs)"
  by (induction rs) (auto split: list.splits)

text \<open>
  With a truthy attachment, \<^verbatim>\<open>assist\<close> ends where the transcription raises, or else at
  \<^verbatim>\<open>await self.summarize_text(transcription)\<close>.
\<close>

lemma assist_processing:
  assumes "truthy (dict_get (attachments query) ''mp4_file'')"
    and "await (transcribe_video sv self (dict_get (attachments query) ''mp4_file''))
           (w\<lparr>emitted := emitted w @ [TextBlock ''PROCESSING'' ''Processing MP4 file...'']\<rparr>) = (r, w')"
  shows "assist sv self session query w =
           ((case r of
               Inl e \<Rightarrow> Inl e
             | Inr t \<Rightarrow> Inl (TypeError ''object async_generator can't be used in 'await' expression'')),
            w')"
  using assms
  by (simp add: assist_def Let_def and_then_def await_emit_text_block summarize_text_def
      split: sum.splits)

lemma example_query_mp4: "dict_get (attachments example_query) ''mp4_file'' = PStr ''video.mp4''"
  by (simp add: example_query_def dict_get_def)

lemma example_world_emitted: "emitted example_world = []"
  by (simp add: example_world_def)

lemma example_transcription:
  "await (transcribe_video example_services example_agent (PStr ''video.mp4''))
     (example_world\<lparr>emitted := [TextBlock ''PROCESSING'' ''Processing MP4 file...'']\<rparr>) =
   (Inr (''hello'' @ newline @ ''world''),
    example_world\<lparr>emitted := [TextBlock ''PROCESSING'' ''Processing MP4 file...''],
        files := [''/tmp/tmpab12cd34'' \<mapsto> []], tmp_names := [],
        speech_calls := [(\<lparr>encoding = LINEAR16, sample_rate_hertz = 16000, language_code = ''en-US''\<rparr>,
          \<lparr>content = []\<rparr>)]\<rparr>)"
  by (simp add: await_transcribe_video_named [of _ "''/tmp/tmpab12cd34''" "[]"]
      example_world_def example_services_def)

lemma down_transcription:
  "await (transcribe_video down_services example_agent (PStr ''video.mp4''))
     (example_world\<lparr>emitted := [TextBlock ''PROCESSING'' ''Processing MP4 file...'']\<rparr>) =
   (Inl (ServiceError ''503 service unavailable''),
    example_world\<lparr>emitted := [TextBlock ''PROCESSING'' ''Processing MP4 file...''],
        files := [''/tmp/tmpab12cd34'' \<mapsto> []], tmp_names := [],
        speech_calls := [(\<lparr>encoding = LINEAR16, sample_rate_hertz = 16000, language_code = ''en-US''\<rparr>,
          \<lparr>content = []\<rparr>)]\<rparr>)"
  by (simp add: await_transcribe_video_named [of _ "''/tmp/tmpab12cd34''" "[]"]
      example_world_def down_services_def)

text \<open>The generator of \<^verbatim>\<open>summarize_text\<close>, called \<open>n\<close> times, from each of its states.\<close>

lemma anexts_Closed: "anexts n sv Closed w = ((replicate n None, Closed), w)"
  by (induction n) simp_all

lemma anexts_Suspended:
  "anexts n sv (Suspended it) w =
     ((map Some (take n it) @ replicate (n - length it) None,
       if n \<le> length it then Suspended (drop n it) else Closed), w)"
proof (induction n arbitrary: it)
  case 0
  show ?case by simp
next
  case (Suc n)
  show ?case
  proof (cases it)
    case Nil
    then show ?thesis by (simp add: anexts_Closed)
  next
    case (Cons c cs)
    then show ?thesis using Suc [of cs] by simp
  qed
qed

lemma anexts_Created:
  "anexts (Suc n) sv (Created text) w =
     ((map Some (take (Suc n) (query_stream sv (summary_query text))) @
         replicate (Suc n - length (query_stream sv (summary_query text))) None,
       if Suc n \<le> length (query_stream sv (summary_query text))
       then Suspended (drop (Suc n) (query_stream sv (summary_query text))) else Closed),
      w\<lparr>model_calls := model_calls w @ [summary_query text]\<rparr>)"
proof (cases "query_stream sv (summary_query text)")
  case Nil
  then show ?thesis by (simp add: anexts_Closed)
next
  case (Cons c cs)
  then show ?thesis by (simp add: anexts_Suspended)
qed

subsection \<open>The happy path of assist\<close>

text \<open>
  C1: a query with a truthy attachment under \<^verbatim>\<open>mp4_file\<close> should have the blocks
  "PROCESSING", "TRANSCRIPTION", "SUMMARY" and then the completion signal emitted, in
  that order. The code does not do this: on the run below (speech service answering
  "hello" and "world", provider streaming "A", "B", "C") it emits the "PROCESSING" block,
  transcribes, and then raises \<^verbatim>\<open>TypeError\<close> at
  \<^verbatim>\<open>await self.summarize_text(transcription)\<close>, because \<^verbatim>\<open>summarize_text\<close> is an
  asynchronous generator function and its result cannot be awaited. No "TRANSCRIPTION"
  block, no "SUMMARY" block and no completion signal are emitted.
\<close>

theorem assist_example_run:
  "assist example_services example_agent () example_query example_world =
     (Inl (TypeError ''object async_generator can't be used in 'await' expression''),
      example_world\<lparr>emitted := [TextBlock ''PROCESSING'' ''Processing MP4 file...''],
        files := [''/tmp/tmpab12cd34'' \<mapsto> []], tmp_names := [],
        speech_calls := [(\<lparr>encoding = LINEAR16, sample_rate_hertz = 16000, language_code = ''en-US''\<rparr>,
          \<lparr>content = []\<rparr>)]\<rparr>)"
  using assist_processing [of example_query example_services example_agent example_world
      "Inr (''hello'' @ newline @ ''world'')" _ "()"] example_transcription
  by (simp add: example_query_mp4 example_world_emitted)

text \<open>
  C2: in \<^verbatim>\<open>assist\<close>, the lazy sequence of summary fragments that
  \<^verbatim>\<open>summarize_text\<close> produces should be what is bound to \<^verbatim>\<open>summary\<close> and emitted
  inside the "SUMMARY" JSON block. The code does not do this: on the run above the value
  of \<^verbatim>\<open>summarize_text(transcription)\<close> is indeed the asynchronous generator object,
  not text, but \<^verbatim>\<open>await\<close> on it raises \<^verbatim>\<open>TypeError\<close>, so nothing is bound to
  \<^verbatim>\<open>summary\<close> and the only block emitted is the "PROCESSING" text block: no "SUMMARY"
  block, with the generator object or with anything else.
\<close>

theorem assist_example_summary_not_emitted:
  "truthy (dict_get (attachments example_query) ''mp4_file'') \<and>
   summarize_text example_services example_agent (''hello'' @ newline @ ''world'') =
     AsyncGenerator (Created (''hello'' @ newline @ ''world'')) \<and>
   fst (assist example_services example_agent () example_query example_world) =
     Inl (TypeError ''object async_generator can't be used in 'await' expression'') \<and>
   emitted (snd (assist example_services example_agent () example_query example_world)) =
     [TextBlock ''PROCESSING'' ''Processing MP4 file...'']"
  using assist_processing [of example_query example_services example_agent example_world
      "Inr (''hello'' @ newline @ ''world'')" _ "()"] example_transcription
  by (simp add: example_query_mp4 example_world_emitted summarize_text_def)

subsection \<open>The error path of assist\<close>

text \<open>
  C3: for a query whose attachments have no entry under \<^verbatim>\<open>mp4_file\<close>, assist emits
  exactly one block, the "ERROR" text block with the message "No MP4 file provided.", and
  returns: nothing else of the state changes (no file, no request to the speech service,
  no prompt to the model provider), and no completion signal is emitted.
\<close>

theorem assist_missing_attachment:
  assumes "attachments query ''mp4_file'' = None"
  shows "assist sv self session query w =
           (Inr PNone, w\<lparr>emitted := emitted w @ [TextBlock ''ERROR'' ''No MP4 file provided.'']\<rparr>)"
  using assms by (simp add: assist_def dict_get_def and_then_def await_emit_text_block)

theorem assist_missing_attachment_witness:
  "attachments \<lparr>attachments = Map.empty\<rparr> ''mp4_file'' = None \<and>
   assist example_services example_agent () \<lparr>attachments = Map.empty\<rparr> example_world =
     (Inr PNone, example_world\<lparr>emitted := [TextBlock ''ERROR'' ''No MP4 file provided.'']\<rparr>)"
  using assist_missing_attachment [of "\<lparr>attachments = Map.empty\<rparr>" example_services
      example_agent "()" example_world]
  by (simp add: example_world_def)

text \<open>
  C9: the guard tests falsiness, not presence: for a query whose attachments map
  \<^verbatim>\<open>mp4_file\<close> to a falsy value (an empty string, empty bytes), assist takes the same
  path as for a missing attachment: it emits the "ERROR" block and returns, and nothing
  else of the state changes.
\<close>

theorem assist_falsy_attachment:
  assumes "attachments query ''mp4_file'' = Some v" and "\<not> truthy v"
  shows "assist sv self session query w =
           (Inr PNone, w\<lparr>emitted := emitted w @ [TextBlock ''ERROR'' ''No MP4 file provided.'']\<rparr>)"
  using assms by (simp add: assist_def dict_get_def and_then_def await_emit_text_block)

theorem assist_falsy_attachment_witness:
  "assist example_services example_agent () \<lparr>attachments = [''mp4_file'' \<mapsto> PStr []]\<rparr>
       example_world =
     (Inr PNone, example_world\<lparr>emitted := [TextBlock ''ERROR'' ''No MP4 file provided.'']\<rparr>) \<and>
   assist example_services example_agent () \<lparr>attachments = [''mp4_file'' \<mapsto> PBytes []]\<rparr>
       example_world =
     (Inr PNone, example_world\<lparr>emitted := [TextBlock ''ERROR'' ''No MP4 file provided.'']\<rparr>)"
  using assist_falsy_attachment [of "\<lparr>attachments = [''mp4_file'' \<mapsto> PStr []]\<rparr>" "PStr []"
      example_services example_agent "()" example_world]
    assist_falsy_attachment [of "\<lparr>attachments = [''mp4_file'' \<mapsto> PBytes []]\<rparr>" "PBytes []"
      example_services example_agent "()" example_world]
  by (simp add: example_world_def)

text \<open>
  C8: for a query with a (truthy) attachment under \<^verbatim>\<open>mp4_file\<close>, if the transcription
  step raises \<open>e\<close>, or it returns and the summarization step raises \<open>e\<close>, then assist
  raises \<open>e\<close> in the state the failing step left: the blocks emitted are the "PROCESSING"
  block and nothing after it (no "TRANSCRIPTION", no "SUMMARY", no completion signal), the
  speech service has received at most one request and the model provider none (no
  retry).
\<close>

theorem assist_exception_propagates:
  assumes "truthy (dict_get (attachments query) ''mp4_file'')"
    and "await (transcribe_video sv self (dict_get (attachments query) ''mp4_file''))
           (w\<lparr>emitted := emitted w @ [TextBlock ''PROCESSING'' ''Processing MP4 file...'']\<rparr>) = (r, w')"
    and "r = Inl e \<or> (\<exists>t. r = Inr t \<and> fst (await (summarize_text sv self t) w') = Inl e)"
  shows "assist sv self session query w = (Inl e, w') \<and>
         emitted w' = emitted w @ [TextBlock ''PROCESSING'' ''Processing MP4 file...''] \<and>
         length (speech_calls w') \<le> Suc (length (speech_calls w)) \<and>
         model_calls w' = model_calls w"
proof -
  have run: "assist sv self session query w =
      ((case r of
          Inl e \<Rightarrow> Inl e
        | Inr t \<Rightarrow> Inl (TypeError ''object async_generator can't be used in 'await' expression'')),
       w')"
    using assms(1,2) by (rule assist_processing)
  have frame: "emitted w' = emitted w @ [TextBlock ''PROCESSING'' ''Processing MP4 file...''] \<and>
      model_calls w' = model_calls w \<and> length (speech_calls w') \<le> Suc (length (speech_calls w))"
    using transcribe_video_frame [OF assms(2)] by simp
  from assms(3) have "(case r of
          Inl e \<Rightarrow> Inl e
        | Inr t \<Rightarrow> Inl (TypeError ''object async_generator can't be used in 'await' expression'')) = Inl e"
    by (auto simp add: summarize_text_def)
  with run frame show ?thesis by simp
qed

theorem assist_exception_propagates_witness:
  "assist down_services example_agent () example_query example_world =
     (Inl (ServiceError ''503 service unavailable''),
      example_world\<lparr>emitted := [TextBlock ''PROCESSING'' ''Processing MP4 file...''],
        files := [''/tmp/tmpab12cd34'' \<mapsto> []], tmp_names := [],
        speech_calls := [(\<lparr>encoding = LINEAR16, sample_rate_hertz = 16000, language_code = ''en-US''\<rparr>,
          \<lparr>content = []\<rparr>)]\<rparr>) \<and>
   assist example_services example_agent () example_query example_world =
     (Inl (TypeError ''object async_generator can't be used in 'await' expression''),
      example_world\<lparr>emitted := [TextBlock ''PROCESSING'' ''Processing MP4 file...''],
        files := [''/tmp/tmpab12cd34'' \<mapsto> []], tmp_names := [],
        speech_calls := [(\<lparr>encoding = LINEAR16, sample_rate_hertz = 16000, language_code = ''en-US''\<rparr>,
          \<lparr>content = []\<rparr>)]\<rparr>)"
proof -
  have a: "assist down_services example_agent () example_query example_world =
     (Inl (ServiceError ''503 service unavailable''),
      example_world\<lparr>emitted := [TextBlock ''PROCESSING'' ''Processing MP4 file...''],
        files := [''/tmp/tmpab12cd34'' \<mapsto> []], tmp_names := [],
        speech_calls := [(\<lparr>encoding = LINEAR16, sample_rate_hertz = 16000, language_code = ''en-US''\<rparr>,
          \<lparr>content = []\<rparr>)]\<rparr>)"
    using assist_exception_propagates [of example_query down_services example_agent
        example_world "Inl (ServiceError ''503 service unavailable'')" _
        "ServiceError ''503 service unavailable''" "()"]
      down_transcription
    by (simp add: example_query_mp4 example_world_emitted)
  have b: "assist example_services example_agent () example_query example_world =
     (Inl (TypeError ''object async_generator can't be used in 'await' expression''),
      example_world\<lparr>emitted := [TextBlock ''PROCESSING'' ''Processing MP4 file...''],
        files := [''/tmp/tmpab12cd34'' \<mapsto> []], tmp_names := [],
        speech_calls := [(\<lparr>encoding = LINEAR16, sample_rate_hertz = 16000, language_code = ''en-US''\<rparr>,
          \<lparr>content = []\<rparr>)]\<rparr>)"
    using assist_exception_propagates [of example_query example_services example_agent
        example_world "Inr (''hello'' @ newline @ ''world'')" _
        "TypeError ''object async_generator can't be used in 'await' expression''" "()"]
      example_transcription
    by (simp add: example_query_mp4 example_world_emitted summarize_text_def)
  from a b show ?thesis by simp
qed

subsection \<open>Transcription\<close>

text \<open>
  C4: when the temporary file can be made, the speech service answers the request with a
  response, and every result of it has an alternative, \<^verbatim>\<open>transcribe_video\<close> returns the
  top (first) alternative's transcript of each result, in the order of the response,
  joined by newlines; for a service answering with two segments whose top alternatives are
  "hello" and "world", the transcript is "hello", a newline, "world".
\<close>

theorem transcribe_video_joins_top_alternatives:
  assumes "mkstemp (tmp_names w) (files w) = Some (p, ns)"
    and "recognize sv \<lparr>encoding = LINEAR16, sample_rate_hertz = 16000, language_code = ''en-US''\<rparr>
           \<lparr>content = []\<rparr> = Inr response"
    and "\<forall>r \<in> set (results response). alternatives r \<noteq> []"
  shows "fst (await (transcribe_video sv self mp4) w) =
           Inr (join newline (map (\<lambda>r. transcript (hd (alternatives r))) (results response)))"
  using assms by (simp add: await_transcribe_video_named top_transcripts_all)

theorem transcribe_video_joins_top_alternatives_witness:
  "fst (await (transcribe_video example_services example_agent (PStr ''video.mp4''))
          example_world) =
     Inr (''hello'' @ [CHR 0x0A] @ ''world'')"
  using transcribe_video_joins_top_alternatives [of example_world "''/tmp/tmpab12cd34''" "[]"
      example_services
      "\<lparr>results = [\<lparr>alternatives = [\<lparr>transcript = ''hello''\<rparr>, \<lparr>transcript = ''hullo''\<rparr>]\<rparr>,
         \<lparr>alternatives = [\<lparr>transcript = ''world''\<rparr>]\<rparr>]\<rparr>" example_agent "PStr ''video.mp4''"]
  by (simp add: example_world_def example_services_def newline_def)

text \<open>
  C7: \<^verbatim>\<open>convert_mp4_to_audio\<close> is a no-op for every pair of paths: it returns
  \<^verbatim>\<open>None\<close> and leaves the state, the output file included, as it was. So what
  \<^verbatim>\<open>transcribe_video\<close> reads back from the temporary file it has just created is empty,
  and the one request it sends to the speech service carries empty audio content.
\<close>

theorem convert_mp4_to_audio_noop:
  "convert_mp4_to_audio self mp4 out w = (Inr PNone, w) \<and>
   (\<forall>p w1. NamedTemporaryFile w = (Inr p, w1) \<longrightarrow>
      open_rb_read p (snd (convert_mp4_to_audio self mp4 p w1)) = (Inr [], w1)) \<and>
   speech_calls (snd (await (transcribe_video sv self mp4) w)) =
     speech_calls w @
       (case mkstemp (tmp_names w) (files w) of
          None \<Rightarrow> []
        | Some _ \<Rightarrow> [(\<lparr>encoding = LINEAR16, sample_rate_hertz = 16000, language_code = ''en-US''\<rparr>,
            \<lparr>content = []\<rparr>)])"
proof (intro conjI allI impI)
  show "convert_mp4_to_audio self mp4 out w = (Inr PNone, w)"
    by (simp add: convert_mp4_to_audio_def)
next
  fix p w1
  assume "NamedTemporaryFile w = (Inr p, w1)"
  then show "open_rb_read p (snd (convert_mp4_to_audio self mp4 p w1)) = (Inr [], w1)"
    by (auto simp add: NamedTemporaryFile_def convert_mp4_to_audio_def open_rb_read_def
        split: option.splits)
next
  show "speech_calls (snd (await (transcribe_video sv self mp4) w)) =
     speech_calls w @
       (case mkstemp (tmp_names w) (files w) of
          None \<Rightarrow> []
        | Some _ \<Rightarrow> [(\<lparr>encoding = LINEAR16, sample_rate_hertz = 16000, language_code = ''en-US''\<rparr>,
            \<lparr>content = []\<rparr>)])"
  proof (cases "mkstemp (tmp_names w) (files w)")
    case None
    then show ?thesis
      by (simp add: await_transcribe_video_no_name)
  next
    case (Some a)
    then obtain q ns where "mkstemp (tmp_names w) (files w) = Some (q, ns)"
      by (cases a) simp
    then show ?thesis
      by (simp add: await_transcribe_video_named)
  qed
qed

theorem convert_mp4_to_audio_noop_witness:
  "NamedTemporaryFile example_world =
     (Inr ''/tmp/tmpab12cd34'',
      example_world\<lparr>files := [''/tmp/tmpab12cd34'' \<mapsto> []], tmp_names := []\<rparr>) \<and>
   open_rb_read ''/tmp/tmpab12cd34''
     (snd (convert_mp4_to_audio example_agent (PStr ''video.mp4'') ''/tmp/tmpab12cd34''
        (example_world\<lparr>files := [''/tmp/tmpab12cd34'' \<mapsto> []], tmp_names := []\<rparr>))) =
     (Inr [], example_world\<lparr>files := [''/tmp/tmpab12cd34'' \<mapsto> []], tmp_names := []\<rparr>) \<and>
   speech_calls (snd (await (transcribe_video example_services example_agent
     (PStr ''video.mp4'')) example_world)) =
     [(\<lparr>encoding = LINEAR16, sample_rate_hertz = 16000, language_code = ''en-US''\<rparr>,
       \<lparr>content = []\<rparr>)]"
proof -
  have n: "NamedTemporaryFile example_world =
     (Inr ''/tmp/tmpab12cd34'',
      example_world\<lparr>files := [''/tmp/tmpab12cd34'' \<mapsto> []], tmp_names := []\<rparr>)"
    by (simp add: NamedTemporaryFile_def example_world_def)
  have m: "mkstemp (tmp_names example_world) (files example_world) =
      Some (''/tmp/tmpab12cd34'', [])"
    by (simp add: example_world_def)
  have s: "speech_calls example_world = []"
    by (simp add: example_world_def)
  show ?thesis
    using convert_mp4_to_audio_noop [of example_agent "PStr ''video.mp4''" "''/tmp/tmpab12cd34''"
        example_world example_services] n
    by (simp add: m s)
qed

subsection \<open>Summarization\<close>

text \<open>
  C6: for every text and every fragment sequence the provider streams for the prompt,
  the generator of \<^verbatim>\<open>summarize_text\<close> yields exactly that sequence: the first
  \<open>n + 1\<close> calls of \<^verbatim>\<open>__anext__\<close> return the first \<open>n + 1\<close> fragments in the provider's
  order and \<^verbatim>\<open>StopAsyncIteration\<close> for every call past the end; the provider is
  queried once, whatever the number of calls; and as long as fragments are left the
  generator holds none of them: the stream still holds exactly those not yet yielded. For
  a provider streaming "A", "B", "C" it yields "A", "B", "C", once.
\<close>

theorem summarize_text_yields_stream:
  "summarize_text sv self text = AsyncGenerator (Created text) \<and>
   anexts (Suc n) sv (Created text) w =
     ((map Some (take (Suc n) (query_stream sv (summary_query text))) @
         replicate (Suc n - length (query_stream sv (summary_query text))) None,
       if Suc n \<le> length (query_stream sv (summary_query text))
       then Suspended (drop (Suc n) (query_stream sv (summary_query text))) else Closed),
      w\<lparr>model_calls := model_calls w @ [summary_query text]\<rparr>)"
  by (simp only: summarize_text_def anexts_Created simp_thms)

theorem summarize_text_yields_stream_witness:
  "anexts 5 example_services (Created ''hello'') example_world =
     (([Some ''A'', Some ''B'', Some ''C'', None, None], Closed),
      example_world\<lparr>model_calls := [''Summarize the following text: hello'']\<rparr>) \<and>
   anexts 2 example_services (Created ''hello'') example_world =
     (([Some ''A'', Some ''B''], Suspended [''C'']),
      example_world\<lparr>model_calls := [''Summarize the following text: hello'']\<rparr>)"
  using summarize_text_yields_stream [of example_services example_agent "''hello''" 4 example_world]
    summarize_text_yields_stream [of example_services example_agent "''hello''" 1 example_world]
  by (simp add: example_services_def example_world_def summary_query_def eval_nat_numeral)

subsection \<open>Construction\<close>

text \<open>
  C5, as amended: constructing the agent with any one of \<^verbatim>\<open>MODEL_API_KEY\<close>,
  \<^verbatim>\<open>TAVILY_API_KEY\<close>, \<^verbatim>\<open>GOOGLE_CLOUD_SPEECH_API_KEY\<close> unset (or empty) raises
  \<^verbatim>\<open>ValueError\<close> for the first such variable in that order, before the client that
  variable configures and every later client is created: no client when it is
  \<^verbatim>\<open>MODEL_API_KEY\<close>; the model provider only when it is \<^verbatim>\<open>TAVILY_API_KEY\<close>; the
  model provider and the search provider when it is \<^verbatim>\<open>GOOGLE_CLOUD_SPEECH_API_KEY\<close>.
  The speech client is never among them.
\<close>

theorem agent_init_missing_key:
  assumes "not_set env ''MODEL_API_KEY'' \<or> not_set env ''TAVILY_API_KEY'' \<or>
           not_set env ''GOOGLE_CLOUD_SPEECH_API_KEY''"
  shows "agent_init nm env =
           (if not_set env ''MODEL_API_KEY'' then
              (Inl (ValueError ''MODEL_API_KEY is not set''), [])
            else if not_set env ''TAVILY_API_KEY'' then
              (Inl (ValueError ''TAVILY_API_KEY is not set''),
               [ModelClient (ModelProvider (the (env ''MODEL_API_KEY'')))])
            else
              (Inl (ValueError ''GOOGLE_CLOUD_SPEECH_API_KEY is not set''),
               [ModelClient (ModelProvider (the (env ''MODEL_API_KEY''))),
                SearchClient (SearchProvider (the (env ''TAVILY_API_KEY'')))]))"
  using assms by (auto simp add: agent_init_def Let_def)

theorem agent_init_missing_key_witness:
  "not_set [''MODEL_API_KEY'' \<mapsto> ''mk'', ''TAVILY_API_KEY'' \<mapsto> ''sk'']
     ''GOOGLE_CLOUD_SPEECH_API_KEY'' \<and>
   agent_init ''a'' [''MODEL_API_KEY'' \<mapsto> ''mk'', ''TAVILY_API_KEY'' \<mapsto> ''sk''] =
     (Inl (ValueError ''GOOGLE_CLOUD_SPEECH_API_KEY is not set''),
      [ModelClient (ModelProvider ''mk''), SearchClient (SearchProvider ''sk'')])"
  using agent_init_missing_key [of "[''MODEL_API_KEY'' \<mapsto> ''mk'', ''TAVILY_API_KEY'' \<mapsto> ''sk'']"
      "''a''"]
  by (simp add: not_set_def)

text \<open>
  C5, as stated, fails: with \<^verbatim>\<open>TAVILY_API_KEY\<close> unset and the other two set, the
  error is raised after the model provider has been created.
\<close>

theorem agent_init_tavily_unset_counterexample:
  "not_set [''MODEL_API_KEY'' \<mapsto> ''mk'', ''GOOGLE_CLOUD_SPEECH_API_KEY'' \<mapsto> ''gk'']
     ''TAVILY_API_KEY'' \<and>
   agent_init ''a'' [''MODEL_API_KEY'' \<mapsto> ''mk'', ''GOOGLE_CLOUD_SPEECH_API_KEY'' \<mapsto> ''gk''] =
     (Inl (ValueError ''TAVILY_API_KEY is not set''), [ModelClient (ModelProvider ''mk'')])"
  by (simp add: agent_init_def not_set_def Let_def)

text \<open>
  C10: the value of \<^verbatim>\<open>GOOGLE_CLOUD_SPEECH_API_KEY\<close> does not influence construction
  beyond being non-empty: two runs of the constructor that differ only in the non-empty
  value of that variable end the same way, with the same agent and the same clients
  created.
\<close>

theorem agent_init_speech_key_value_irrelevant:
  assumes "v1 \<noteq> []" and "v2 \<noteq> []"
  shows "agent_init nm (env(''GOOGLE_CLOUD_SPEECH_API_KEY'' \<mapsto> v1)) =
         agent_init nm (env(''GOOGLE_CLOUD_SPEECH_API_KEY'' \<mapsto> v2))"
  using assms by (simp add: agent_init_def not_set_def Let_def)

theorem agent_init_speech_key_value_irrelevant_witness:
  "agent_init ''a'' [''MODEL_API_KEY'' \<mapsto> ''mk'', ''TAVILY_API_KEY'' \<mapsto> ''sk'',
      ''GOOGLE_CLOUD_SPEECH_API_KEY'' \<mapsto> ''key-one''] =
   agent_init ''a'' [''MODEL_API_KEY'' \<mapsto> ''mk'', ''TAVILY_API_KEY'' \<mapsto> ''sk'',
      ''GOOGLE_CLOUD_SPEECH_API_KEY'' \<mapsto> ''another''] \<and>
   agent_init ''a'' [''MODEL_API_KEY'' \<mapsto> ''mk'', ''TAVILY_API_KEY'' \<mapsto> ''sk'',
      ''GOOGLE_CLOUD_SPEECH_API_KEY'' \<mapsto> ''key-one''] =
     (Inr \<lparr>agent_name = ''a'', model_provider = ModelProvider ''mk'',
           search_provider = SearchProvider ''sk'', speech_client = SpeechClient\<rparr>,
      [ModelClient (ModelProvider ''mk''), SearchClient (SearchProvider ''sk''),
       SpeechClientOf SpeechClient])"
  using agent_init_speech_key_value_irrelevant [of "''key-one''" "''another''" "''a''"
      "[''MODEL_API_KEY'' \<mapsto> ''mk'', ''TAVILY_API_KEY'' \<mapsto> ''sk'']"]
  by (simp add: agent_init_def not_set_def Let_def)

end
